theory Spec2Isabelle
  imports Main
begin

section \<open>JavaScript values used by the frontend\<close>

text \<open>
  Strings are lists of 8-bit code units. \<open>truthy\<close> is the JavaScript truth value of a
  \<open>string | null | undefined\<close>: \<open>None\<close> stands for \<open>null\<close>/\<open>undefined\<close>, and the empty
  string is falsy. \<open>orElse\<close> is \<open>a || b\<close> on such a value with a string default.
\<close>

fun truthy :: "string option \<Rightarrow> bool" where
  "truthy None = False"
| "truthy (Some s) = (s \<noteq> [])"

fun orElse :: "string option \<Rightarrow> string \<Rightarrow> string" where
  "orElse None d = d"
| "orElse (Some s) d = (if s = [] then d else s)"

text \<open>
  \<open>String.prototype.trim\<close> removes white space at both ends. On 8-bit code units the
  white space characters are TAB, LF, VT, FF, CR, SPACE and NBSP.
\<close>

definition isWhitespace :: "char \<Rightarrow> bool" where
  "isWhitespace c = (of_char c \<in> {9, 10, 11, 12, 13, 32, 160 :: nat})"

definition trim :: "string \<Rightarrow> string" where
  "trim s = rev (dropWhile isWhitespace (rev (dropWhile isWhitespace s)))"

text \<open>
  \<open>String.prototype.toLowerCase\<close> on 8-bit code units: A-Z and the Latin-1 capitals
  (192-222 without the multiplication sign 215) move up by 32.
\<close>

definition lowerChar :: "char \<Rightarrow> char" where
  "lowerChar c =
     (let n = (of_char c :: nat)
      in if (65 \<le> n \<and> n \<le> 90) \<or> (192 \<le> n \<and> n \<le> 222 \<and> n \<noteq> 215)
         then char_of (n + 32) else c)"

definition toLowerCase :: "string \<Rightarrow> string" where
  "toLowerCase s = map lowerChar s"

text \<open>\<open>s.includes(q)\<close>: \<open>q\<close> occurs in \<open>s\<close> as a contiguous run.\<close>

fun startsWith :: "string \<Rightarrow> string \<Rightarrow> bool" where
  "startsWith s [] = True"
| "startsWith [] (c # q) = False"
| "startsWith (d # s) (c # q) = (d = c \<and> startsWith s q)"

fun includesStr :: "string \<Rightarrow> string \<Rightarrow> bool" where
  "includesStr [] q = (q = [])"
| "includesStr (d # s) q = (startsWith (d # s) q \<or> includesStr s q)"


section \<open>The browser state the services act on\<close>

text \<open>
  \<open>axios_error\<close> is what the axios instance rejects with: its message and
  \<open>error.response?.status\<close> (absent when no response arrived).
\<close>

record axios_error =
  message :: string
  response_status :: "nat option"

text \<open>
  A console line is its leading text and, where the call passes an error object, that
  error. The pictographs that open the source's messages are left out.
\<close>

datatype console_entry =
    ConsoleLog string
  | ConsoleError string "axios_error option"

text \<open>
  \<open>cookie_writes\<close> holds the strings assigned to \<open>document.cookie\<close>, oldest first;
  \<open>window_defined\<close> is \<open>typeof window !== "undefined"\<close>.
\<close>

record browser =
  localStorage :: "string \<rightharpoonup> string"
  cookie_writes :: "string list"
  console :: "console_entry list"
  location_href :: string
  window_defined :: bool

definition console_log :: "string \<Rightarrow> browser \<Rightarrow> browser" where
  "console_log s b = b\<lparr>console := console b @ [ConsoleLog s]\<rparr>"

definition console_error :: "string \<Rightarrow> axios_error option \<Rightarrow> browser \<Rightarrow> browser" where
  "console_error s e b = b\<lparr>console := console b @ [ConsoleError s e]\<rparr>"

definition getItem :: "string \<Rightarrow> browser \<Rightarrow> string option" where
  "getItem k b = localStorage b k"

definition setItem :: "string \<Rightarrow> string \<Rightarrow> browser \<Rightarrow> browser" where
  "setItem k v b = b\<lparr>localStorage := (localStorage b)(k \<mapsto> v)\<rparr>"

definition removeItem :: "string \<Rightarrow> browser \<Rightarrow> browser" where
  "removeItem k b = b\<lparr>localStorage := (localStorage b)(k := None)\<rparr>"


section \<open>services/api.ts: the API client\<close>

record 'a ApiResponse =
  success :: bool
  data :: 'a
  popup :: "string option"
  error :: "string option"

record PaginationMeta =
  page :: int
  limit :: int
  total_count :: int
  total_pages :: int
  has_next :: bool
  has_prev :: bool

text \<open>The pagination object as the backend sends it.\<close>

record BackendPagination =
  bp_current_page :: int
  bp_page_size :: int
  bp_total_count :: int
  bp_total_pages :: int
  bp_has_next :: bool
  bp_has_prev :: bool

record 'h HistoryData =
  items :: "'h list"
  pagination :: BackendPagination

record 'h PaginatedResponse =
  pr_success :: bool
  pr_data :: "'h list"
  pr_pagination :: PaginationMeta
  pr_popup :: "string option"
  pr_error :: "string option"

datatype health = Healthy | Degraded | Down

record HealthStatus =
  hs_status :: health
  hs_service :: string
  hs_timestamp :: "string option"

text \<open>
  An axios response: the HTTP status and the parsed body (\<open>response.data\<close>). The instance
  resolves with a response or rejects with an \<open>axios_error\<close>; a method of the client
  receives that outcome of its one HTTP call. Request URL, verb and payload are not part
  of the model.
\<close>

record 'b axios_response =
  resp_status :: nat
  resp_data :: 'b

type_synonym 'b http_outcome = "axios_error + 'b axios_response"

text \<open>
  The request interceptor reads the stored token and logs which credential goes out.
\<close>

definition request_interceptor :: "browser \<Rightarrow> browser" where
  "request_interceptor b =
     (if truthy (getItem ''auth_token'' b)
      then console_log ''Attaching token to:'' b
      else console_log ''No token, using cookies for:'' b)"

text \<open>
  The response interceptor. \<open>alert_ok\<close> is whether importing and awaiting
  \<open>sessionExpired\<close> (utils/authAlerts) completes without throwing; the interceptor
  catches a failure of it and goes on.
\<close>

definition response_fulfilled :: "'b axios_response \<Rightarrow> browser \<Rightarrow> 'b http_outcome \<times> browser" where
  "response_fulfilled r b = (Inr r, console_log ''Response from:'' b)"

definition response_rejected :: "bool \<Rightarrow> axios_error \<Rightarrow> browser \<Rightarrow> 'b http_outcome \<times> browser" where
  "response_rejected alert_ok e b =
     (let b1 = console_error ''API Error:'' (Some e) b
      in if response_status e = Some 401 then
           (let b2 = console_error ''401 Unauthorized - redirecting to login'' None b1;
                b3 = removeItem ''auth_token'' b2;
                b4 = removeItem ''user'' b3;
                b5 = (if alert_ok then b4
                      else console_log ''Could not show session expired alert'' b4);
                b6 = (if window_defined b5 then b5\<lparr>location_href := ''/login''\<rparr> else b5)
            in (Inl e, b6))
         else (Inl e, b1))"

text \<open>One call through the axios instance: request interceptor, then the response one.\<close>

definition client_call :: "bool \<Rightarrow> 'b http_outcome \<Rightarrow> browser \<Rightarrow> 'b http_outcome \<times> browser" where
  "client_call alert_ok out b =
     (let b1 = request_interceptor b
      in case out of
           Inl e \<Rightarrow> response_rejected alert_ok e b1
         | Inr r \<Rightarrow> response_fulfilled r b1)"

text \<open>
  The shape shared by the methods that log and re-throw: \<open>unwrap\<close> is what the
  \<open>try\<close> block returns from the response, \<open>msg\<close> is the text of the \<open>catch\<close> block.
\<close>

definition try_call ::
  "string \<Rightarrow> ('b axios_response \<Rightarrow> 'r) \<Rightarrow> bool \<Rightarrow> 'b http_outcome \<Rightarrow> browser
     \<Rightarrow> (axios_error + 'r) \<times> browser" where
  "try_call msg unwrap alert_ok out b =
     (case client_call alert_ok out b of
        (Inl e, b') \<Rightarrow> (Inl e, console_error msg (Some e) b')
      | (Inr r, b') \<Rightarrow> (Inr (unwrap r), b'))"

definition health_fallback :: HealthStatus where
  "health_fallback = \<lparr>hs_status = Down, hs_service = ''todo-app-backend'', hs_timestamp = None\<rparr>"

definition getHealth ::
  "bool \<Rightarrow> HealthStatus ApiResponse http_outcome \<Rightarrow> browser
     \<Rightarrow> (axios_error + HealthStatus) \<times> browser" where
  "getHealth alert_ok out b =
     (case client_call alert_ok out b of
        (Inl e, b') \<Rightarrow> (Inr health_fallback, console_error ''Health check failed:'' (Some e) b')
      | (Inr r, b') \<Rightarrow> (Inr (data (resp_data r)), b'))"

text \<open>\<open>response.data.data || []\<close>: a \<open>null\<close> list (\<open>None\<close>) becomes the empty list.\<close>

definition getTasks ::
  "bool \<Rightarrow> 't list option ApiResponse http_outcome \<Rightarrow> browser
     \<Rightarrow> (axios_error + 't list) \<times> browser" where
  "getTasks =
     try_call ''Failed to fetch tasks:''
       (\<lambda>r. case data (resp_data r) of None \<Rightarrow> [] | Some ts \<Rightarrow> ts)"

definition getTask ::
  "string \<Rightarrow> bool \<Rightarrow> 't ApiResponse http_outcome \<Rightarrow> browser \<Rightarrow> (axios_error + 't) \<times> browser" where
  "getTask ident =
     try_call (''Failed to fetch task '' @ ident @ '':'') (\<lambda>r. data (resp_data r))"

definition createTask ::
  "bool \<Rightarrow> 't ApiResponse http_outcome \<Rightarrow> browser \<Rightarrow> (axios_error + 't) \<times> browser" where
  "createTask = try_call ''Failed to create task:'' (\<lambda>r. data (resp_data r))"

definition updateTask ::
  "string \<Rightarrow> bool \<Rightarrow> 't ApiResponse http_outcome \<Rightarrow> browser \<Rightarrow> (axios_error + 't) \<times> browser" where
  "updateTask ident =
     try_call (''Failed to update task '' @ ident @ '':'') (\<lambda>r. data (resp_data r))"

definition completeTask ::
  "string \<Rightarrow> bool \<Rightarrow> 't ApiResponse http_outcome \<Rightarrow> browser \<Rightarrow> (axios_error + 't) \<times> browser" where
  "completeTask ident =
     try_call (''Failed to complete task '' @ ident @ '':'') (\<lambda>r. data (resp_data r))"

definition incompleteTask ::
  "string \<Rightarrow> bool \<Rightarrow> 't ApiResponse http_outcome \<Rightarrow> browser \<Rightarrow> (axios_error + 't) \<times> browser" where
  "incompleteTask ident =
     try_call (''Failed to mark task incomplete '' @ ident @ '':'') (\<lambda>r. data (resp_data r))"

definition deleteTask ::
  "string \<Rightarrow> bool \<Rightarrow> 'b http_outcome \<Rightarrow> browser \<Rightarrow> (axios_error + unit) \<times> browser" where
  "deleteTask ident =
     try_call (''Failed to delete task '' @ ident @ '':'') (\<lambda>r. ())"

definition mapPagination :: "BackendPagination \<Rightarrow> PaginationMeta" where
  "mapPagination backendPagination =
     \<lparr>page = bp_current_page backendPagination,
      limit = bp_page_size backendPagination,
      total_count = bp_total_count backendPagination,
      total_pages = bp_total_pages backendPagination,
      has_next = bp_has_next backendPagination,
      has_prev = bp_has_prev backendPagination\<rparr>"

definition getHistory ::
  "bool \<Rightarrow> 'h HistoryData ApiResponse http_outcome \<Rightarrow> browser
     \<Rightarrow> (axios_error + 'h PaginatedResponse) \<times> browser" where
  "getHistory =
     try_call ''Failed to fetch history:''
       (\<lambda>r. \<lparr>pr_success = success (resp_data r),
              pr_data = items (data (resp_data r)),
              pr_pagination = mapPagination (pagination (data (resp_data r))),
              pr_popup = popup (resp_data r),
              pr_error = error (resp_data r)\<rparr>)"

definition deleteHistoryEntry ::
  "string \<Rightarrow> bool \<Rightarrow> 'b http_outcome \<Rightarrow> browser \<Rightarrow> (axios_error + unit) \<times> browser" where
  "deleteHistoryEntry historyId =
     try_call (''Failed to delete history entry '' @ historyId @ '':'') (\<lambda>r. ())"

definition getWeeklyStats ::
  "bool \<Rightarrow> 'w ApiResponse http_outcome \<Rightarrow> browser \<Rightarrow> (axios_error + 'w) \<times> browser" where
  "getWeeklyStats = try_call ''Failed to fetch weekly stats:'' (\<lambda>r. data (resp_data r))"

text \<open>\<open>getNotifications\<close> returns \<open>response.data\<close>, the body as it came.\<close>

definition getNotifications ::
  "bool \<Rightarrow> 'b http_outcome \<Rightarrow> browser \<Rightarrow> (axios_error + 'b) \<times> browser" where
  "getNotifications = try_call ''Failed to fetch notifications:'' (\<lambda>r. resp_data r)"

text \<open>
  \<open>markNotificationAsRead\<close> is untyped (\<open>Promise<any>\<close>), so the \<open>data\<close> field of its
  body is any JSON value; a field that is missing reads as \<open>undefined\<close>, and objects and
  arrays are opaque. \<open>js_truthy\<close> is the truth value \<open>||\<close> tests: \<open>undefined\<close>,
  \<open>null\<close>, \<open>false\<close>, \<open>0\<close> and the empty string are falsy.
\<close>

datatype 'o js_value =
    JUndefined
  | JNull
  | JBool bool
  | JNum int
  | JStr string
  | JObj 'o

fun js_truthy :: "'o js_value \<Rightarrow> bool" where
  "js_truthy JUndefined = False"
| "js_truthy JNull = False"
| "js_truthy (JBool v) = v"
| "js_truthy (JNum n) = (n \<noteq> 0)"
| "js_truthy (JStr s) = (s \<noteq> [])"
| "js_truthy (JObj x) = True"

text \<open>
  \<open>markNotificationAsRead\<close> returns \<open>response.data.data || response.data\<close>: the
  \<open>data\<close> field when it is truthy (\<open>Inl\<close>), the body otherwise (\<open>Inr\<close>).
\<close>

definition markNotificationAsRead ::
  "string \<Rightarrow> bool \<Rightarrow> 'o js_value ApiResponse http_outcome \<Rightarrow> browser
     \<Rightarrow> (axios_error + ('o js_value + 'o js_value ApiResponse)) \<times> browser" where
  "markNotificationAsRead notificationId =
     try_call (''Failed to mark notification '' @ notificationId @ '' as read:'')
       (\<lambda>r. if js_truthy (data (resp_data r)) then Inl (data (resp_data r))
            else Inr (resp_data r))"

definition markAllNotificationsAsRead ::
  "bool \<Rightarrow> 'c ApiResponse http_outcome \<Rightarrow> browser \<Rightarrow> (axios_error + 'c) \<times> browser" where
  "markAllNotificationsAsRead =
     try_call ''Failed to mark all notifications as read:'' (\<lambda>r. data (resp_data r))"

text \<open>\<open>getUnreadCount\<close> returns \<open>response.data.data.count\<close>.\<close>

record UnreadCount =
  count :: int

definition getUnreadCount ::
  "bool \<Rightarrow> UnreadCount ApiResponse http_outcome \<Rightarrow> browser \<Rightarrow> (axios_error + int) \<times> browser" where
  "getUnreadCount =
     try_call ''Failed to get unread count:'' (\<lambda>r. count (data (resp_data r)))"


section \<open>services/authApi.ts: the auth service\<close>

text \<open>
  What an \<open>async\<close> function of the auth service can reject with: \<open>fetch\<close> itself
  failing, \<open>response.json()\<close> failing, reading a field of \<open>null\<close>, and the
  \<open>Error\<close> the function throws with its message.
\<close>

datatype js_error = FetchFailed | JsonSyntaxError | TypeError | Error string

text \<open>
  The parsed body: \<open>null\<close> or an object with the fields the service reads. The user
  object is opaque.
\<close>

record 'u auth_body =
  detail :: "string option"
  token :: "string option"
  user :: 'u

datatype 'u json = JsonNull | JsonObject "'u auth_body"

text \<open>
  A \<open>fetch\<close> response: its status and what \<open>response.json()\<close> gives (\<open>None\<close> when it
  rejects). \<open>response.ok\<close> is a status from 200 to 299.
\<close>

record 'u fetch_response =
  fr_status :: nat
  fr_json :: "'u json option"

definition ok :: "'u fetch_response \<Rightarrow> bool" where
  "ok r = (200 \<le> fr_status r \<and> fr_status r \<le> 299)"

datatype 'u fetch_outcome = FetchRejects | FetchResolves "'u fetch_response"

text \<open>
  The builtins the service calls: the clock (\<open>new Date().getTime()\<close>, milliseconds),
  \<open>Date.prototype.toUTCString\<close> of a time in milliseconds, and \<open>JSON.stringify\<close>.
\<close>

record 'u js_runtime =
  now :: int
  toUTCString :: "int \<Rightarrow> string"
  stringify :: "'u \<Rightarrow> string"

definition setCookie :: "'u js_runtime \<Rightarrow> string \<Rightarrow> string \<Rightarrow> int \<Rightarrow> browser \<Rightarrow> browser" where
  "setCookie rt name v days b =
     (let date = now rt + days * 24 * 60 * 60 * 1000;
          expires = ''expires='' @ toUTCString rt date;
          b1 = b\<lparr>cookie_writes := cookie_writes b
                 @ [name @ ''='' @ v @ '';'' @ expires @ '';path=/;SameSite=Lax;Secure'']\<rparr>
      in console_log (''Cookie set: '' @ name) b1)"

definition deleteCookie :: "string \<Rightarrow> browser \<Rightarrow> browser" where
  "deleteCookie name b =
     (let b1 = b\<lparr>cookie_writes := cookie_writes b
                 @ [name @ ''=;expires=Thu, 01 Jan 1970 00:00:00 UTC;path=/;'']\<rparr>
      in console_log (''Cookie deleted: '' @ name) b1)"

definition signup ::
  "'u js_runtime \<Rightarrow> 'u fetch_outcome \<Rightarrow> browser \<Rightarrow> (js_error + 'u json) \<times> browser" where
  "signup rt out b =
     (case out of
        FetchRejects \<Rightarrow> (Inl FetchFailed, b)
      | FetchResolves response \<Rightarrow>
          (case fr_json response of
             None \<Rightarrow> (Inl JsonSyntaxError, b)
           | Some JsonNull \<Rightarrow> (Inl TypeError, b)
           | Some (JsonObject d) \<Rightarrow>
               if \<not> ok response
               then (Inl (Error (orElse (detail d) ''Signup failed. Please try again.'')), b)
               else (case token d of
                       None \<Rightarrow> (Inr (JsonObject d), b)
                     | Some t \<Rightarrow>
                         if t = [] then (Inr (JsonObject d), b)
                         else
                           (let b1 = setCookie rt ''auth_token'' t 30 b;
                                b2 = setItem ''auth_token'' t b1;
                                b3 = setItem ''user'' (stringify rt (user d)) b2;
                                b4 = console_log ''User signed up and token stored'' b3
                            in (Inr (JsonObject d), b4)))))"

definition login ::
  "'u js_runtime \<Rightarrow> 'u fetch_outcome \<Rightarrow> browser \<Rightarrow> (js_error + 'u json) \<times> browser" where
  "login rt out b =
     (case out of
        FetchRejects \<Rightarrow> (Inl FetchFailed, b)
      | FetchResolves response \<Rightarrow>
          (case fr_json response of
             None \<Rightarrow> (Inl JsonSyntaxError, b)
           | Some JsonNull \<Rightarrow> (Inl TypeError, b)
           | Some (JsonObject d) \<Rightarrow>
               if \<not> ok response
               then (Inl (Error (orElse (detail d) ''Login failed. Please try again.'')), b)
               else (case token d of
                       None \<Rightarrow> (Inr (JsonObject d), b)
                     | Some t \<Rightarrow>
                         if t = [] then (Inr (JsonObject d), b)
                         else
                           (let b1 = setCookie rt ''auth_token'' t 30 b;
                                b2 = setItem ''auth_token'' t b1;
                                b3 = setItem ''user'' (stringify rt (user d)) b2;
                                b4 = console_log ''User logged in and token stored'' b3
                            in (Inr (JsonObject d), b4)))))"

text \<open>
  \<open>logout\<close>: \<open>logout_try\<close> is the \<open>try\<close> block, whose result (value or thrown
  error) \<open>logout\<close> hands on after the \<open>finally\<close> block has run.
\<close>

definition logout_try :: "'u fetch_outcome \<Rightarrow> js_error + 'u json" where
  "logout_try out =
     (case out of
        FetchRejects \<Rightarrow> Inl FetchFailed
      | FetchResolves response \<Rightarrow>
          (case fr_json response of
             None \<Rightarrow> Inl JsonSyntaxError
           | Some d \<Rightarrow>
               if \<not> ok response
               then (case d of
                       JsonNull \<Rightarrow> Inl TypeError
                     | JsonObject obj \<Rightarrow>
                         Inl (Error (orElse (detail obj) ''Logout failed. Please try again.'')))
               else Inr d))"

definition logout :: "'u fetch_outcome \<Rightarrow> browser \<Rightarrow> (js_error + 'u json) \<times> browser" where
  "logout out b =
     (let res = logout_try out;
          b1 = deleteCookie ''auth_token'' b;
          b2 = removeItem ''auth_token'' b1;
          b3 = removeItem ''user'' b2;
          b4 = console_log ''User logged out and token cleared'' b3
      in (res, b4))"

definition getCurrentUser :: "'u fetch_outcome \<Rightarrow> browser \<Rightarrow> (js_error + 'u json) \<times> browser" where
  "getCurrentUser out b =
     (case out of
        FetchRejects \<Rightarrow> (Inl FetchFailed, b)
      | FetchResolves response \<Rightarrow>
          (case fr_json response of
             None \<Rightarrow> (Inl JsonSyntaxError, b)
           | Some d \<Rightarrow>
               if \<not> ok response
               then (case d of
                       JsonNull \<Rightarrow> (Inl TypeError, b)
                     | JsonObject obj \<Rightarrow>
                         (Inl (Error (orElse (detail obj) ''Session validation failed.'')), b))
               else (Inr d, b)))"

definition isAuthenticated :: "'u fetch_outcome \<Rightarrow> browser \<Rightarrow> bool \<times> browser" where
  "isAuthenticated out b =
     (case getCurrentUser out b of
        (Inr u, b') \<Rightarrow> (True, b')
      | (Inl e, b') \<Rightarrow> (False, b'))"


section \<open>app/tasks/page.tsx: the tasks page\<close>

datatype TaskStatus = NOT_STARTED | IN_PROGRESS | COMPLETED

datatype Priority = LOW | MEDIUM | HIGH | VERY_IMPORTANT

record Task =
  task_id :: string
  title :: string
  description :: "string option"
  dueDate :: "string option"
  priority :: Priority
  status :: TaskStatus
  tags :: "string list option"
  createdAt :: string
  updatedAt :: string

text \<open>The callback of \<open>sortedTasks.filter\<close>, with the search box's text.\<close>

definition matchesSearch :: "string \<Rightarrow> Task \<Rightarrow> bool" where
  "matchesSearch searchQuery task =
     (if trim searchQuery = [] then True
      else
        (let query = toLowerCase searchQuery
         in includesStr (toLowerCase (title task)) query
            \<or> (case description task of
                  None \<Rightarrow> False
                | Some d \<Rightarrow> includesStr (toLowerCase d) query)
            \<or> (case tags task of
                  None \<Rightarrow> False
                | Some ts \<Rightarrow> list_ex (\<lambda>tag. includesStr (toLowerCase tag) query) ts)))"

text \<open>
  The three lists the page derives in turn. \<open>useFilters\<close> and \<open>useSort\<close> stand for the
  \<open>filteredTasks\<close> and \<open>sortedTasks\<close> the two hooks compute from their argument under the
  current filter and sort state; \<open>searchedTasks\<close> is the list handed to \<open>TaskList\<close>.
\<close>

record page_lists =
  filteredTasks :: "Task list"
  sortedTasks :: "Task list"
  searchedTasks :: "Task list"

definition TasksPage ::
  "(Task list \<Rightarrow> Task list) \<Rightarrow> (Task list \<Rightarrow> Task list) \<Rightarrow> string \<Rightarrow> Task list \<Rightarrow> page_lists" where
  "TasksPage useFilters useSort searchQuery tasks =
     (let filtered = useFilters tasks;
          sorted = useSort filtered;
          searched = filter (matchesSearch searchQuery) sorted
      in \<lparr>filteredTasks = filtered, sortedTasks = sorted, searchedTasks = searched\<rparr>)"

text \<open>
  Modelled from the spec: the status filter of \<open>useFilters\<close> (hooks/useFilters is not among
  the sources). "Filtering by status=NOT_STARTED" keeps the tasks with that status.
\<close>

definition filterByStatus :: "TaskStatus \<Rightarrow> Task list \<Rightarrow> Task list" where
  "filterByStatus s tasks = filter (\<lambda>t. status t = s) tasks"


section \<open>components/tasks/TaskForm.tsx: the task form\<close>

text \<open>
  The form's React state. \<open>errors\<close> is the \<open>Record<string, string>\<close> of messages by
  field name.
\<close>

record form =
  form_title :: string
  form_description :: string
  form_tags :: "string list"
  tagInput :: string
  showTagSuggestions :: bool
  errors :: "string \<rightharpoonup> string"

text \<open>\<open>validateForm\<close> returns its verdict and the form with the new errors set.\<close>

definition validateForm :: "form \<Rightarrow> bool \<times> form" where
  "validateForm f =
     (let newErrors = Map.empty;
          trimmedTitle = trim (form_title f);
          newErrors1 =
            (if trimmedTitle = [] then newErrors(''title'' \<mapsto> ''Title is required'')
             else if length trimmedTitle > 200
               then newErrors(''title'' \<mapsto> ''Title must be 200 characters or less'')
             else newErrors);
          newErrors2 =
            (if length (form_description f) > 2000
               then newErrors1(''description'' \<mapsto> ''Description must be 2000 characters or less'')
             else newErrors1)
      in (newErrors2 = Map.empty, f\<lparr>errors := newErrors2\<rparr>))"

text \<open>
  What \<open>handleSubmit\<close> reads from outside the form: the task being edited (\<open>None\<close>
  when a task is created), \<open>classifyPriority\<close> (lib/skills/priority-classification)
  as a function of the title, the value of \<open>crypto.randomUUID()\<close>, and the two
  \<open>new Date().toISOString()\<close> readings.
\<close>

record submit_env =
  editedTask :: "Task option"
  classifyPriority :: "string \<Rightarrow> Priority"
  randomUUID :: string
  createdNow :: string
  updatedNow :: string

text \<open>
  \<open>handleSubmit\<close> returns the task passed to \<open>onSubmit\<close> (\<open>None\<close> when \<open>onSubmit\<close>
  is not called) and the form afterwards.
\<close>

definition handleSubmit :: "submit_env \<Rightarrow> form \<Rightarrow> Task option \<times> form" where
  "handleSubmit env f =
     (case validateForm f of
        (False, f1) \<Rightarrow> (None, f1)
      | (True, f1) \<Rightarrow>
          (let trimmedTitle = trim (form_title f1);
               trimmedDescription = trim (form_description f1);
               prio = classifyPriority env trimmedTitle;
               newTask =
                 \<lparr>task_id = (case editedTask env of
                               None \<Rightarrow> randomUUID env
                             | Some t \<Rightarrow> if task_id t = [] then randomUUID env else task_id t),
                  title = trimmedTitle,
                  description = (if trimmedDescription = [] then None else Some trimmedDescription),
                  dueDate = None,
                  priority = prio,
                  status = (case editedTask env of None \<Rightarrow> NOT_STARTED | Some t \<Rightarrow> status t),
                  tags = Some (form_tags f1),
                  createdAt = (case editedTask env of
                                 None \<Rightarrow> createdNow env
                               | Some t \<Rightarrow> if createdAt t = [] then createdNow env else createdAt t),
                  updatedAt = updatedNow env\<rparr>
           in (Some newTask,
               if editedTask env = None
               then f1\<lparr>form_title := [], form_description := [], form_tags := [],
                       errors := Map.empty\<rparr>
               else f1)))"

text \<open>
  Modelled from the spec: \<open>validateSingleTag\<close> (lib/skills/task-tagging is not among the
  sources). The spec fixes three rules: tags are drawn from the standard categories
  (here the parameter \<open>standardTags\<close>), a duplicate is rejected, and the selection
  never exceeds 5 entries. The texts of the messages are not in the spec; the form only
  shows the first one.
\<close>

record validation =
  valid :: bool
  validation_errors :: "string list"

definition validateSingleTag :: "string list \<Rightarrow> string list \<Rightarrow> string \<Rightarrow> validation" where
  "validateSingleTag standardTags existingTags newTag =
     (if newTag \<notin> set standardTags
        then \<lparr>valid = False, validation_errors = [''Tag is not a standard category'']\<rparr>
      else if newTag \<in> set existingTags
        then \<lparr>valid = False, validation_errors = [''Tag already added'']\<rparr>
      else if length existingTags \<ge> 5
        then \<lparr>valid = False, validation_errors = [''Maximum 5 tags allowed'']\<rparr>
      else \<lparr>valid = True, validation_errors = []\<rparr>)"

text \<open>
  \<open>handleAddTag\<close>; \<open>validation.errors[0]\<close> of an empty array is \<open>undefined\<close>, which
  leaves no message to show.
\<close>

definition handleAddTag :: "string list \<Rightarrow> string \<Rightarrow> form \<Rightarrow> form" where
  "handleAddTag standardTags tag f =
     (let v = validateSingleTag standardTags (form_tags f) tag
      in if \<not> valid v
         then (case validation_errors v of
                 [] \<Rightarrow> f\<lparr>errors := (errors f)(''tags'' := None)\<rparr>
               | e # _ \<Rightarrow> f\<lparr>errors := (errors f)(''tags'' \<mapsto> e)\<rparr>)
         else f\<lparr>form_tags := form_tags f @ [tag],
                tagInput := [],
                showTagSuggestions := False,
                errors := (errors f)(''tags'' \<mapsto> [])\<rparr>)"

definition handleRemoveTag :: "string \<Rightarrow> form \<Rightarrow> form" where
  "handleRemoveTag tagToRemove f =
     f\<lparr>form_tags := filter (\<lambda>t. t \<noteq> tagToRemove) (form_tags f),
       errors := (errors f)(''tags'' \<mapsto> [])\<rparr>"

text \<open>The tag input is rendered under \<open>tags.length < 5\<close>.\<close>

definition tagInputOffered :: "form \<Rightarrow> bool" where
  "tagInputOffered f = (length (form_tags f) < 5)"

text \<open>A sequence of tag operations on the form, applied from the left.\<close>

datatype tag_event = AddTag string | RemoveTag string

fun tag_step :: "string list \<Rightarrow> form \<Rightarrow> tag_event \<Rightarrow> form" where
  "tag_step standardTags f (AddTag t) = handleAddTag standardTags t f"
| "tag_step standardTags f (RemoveTag t) = handleRemoveTag t f"

fun tag_run :: "string list \<Rightarrow> form \<Rightarrow> tag_event list \<Rightarrow> form" where
  "tag_run standardTags f [] = f"
| "tag_run standardTags f (ev # evs) = tag_run standardTags (tag_step standardTags f ev) evs"


section \<open>Properties stated over the model\<close>

text \<open>
  \<open>handles_401 b b'\<close>: going from \<open>b\<close> to \<open>b'\<close>, both stored credentials are gone,
  and the location is the login page if \<open>b\<close> has a window and is left as it was if not.
  \<open>logs_and_rethrows\<close>: a call's result is the error \<open>e\<close> itself and the last console
  line is the method's \<open>console.error\<close> with that error.
\<close>

definition handles_401 :: "browser \<Rightarrow> browser \<Rightarrow> bool" where
  "handles_401 b b' =
     (localStorage b' ''auth_token'' = None \<and> localStorage b' ''user'' = None
      \<and> location_href b' = (if window_defined b then ''/login'' else location_href b))"



section \<open>Concrete inputs\<close>

definition signedInBrowser :: browser where
  "signedInBrowser =
     \<lparr>localStorage = [''auth_token'' \<mapsto> ''tok123'', ''user'' \<mapsto> ''{}''],
      cookie_writes = [],
      console = [],
      location_href = ''/tasks'',
      window_defined = True\<rparr>"

definition unauthorized :: axios_error where
  "unauthorized =
     \<lparr>message = ''Request failed with status code 401'', response_status = Some 401\<rparr>"


definition unauthorizedResponse :: "unit fetch_outcome" where
  "unauthorizedResponse =
     FetchResolves \<lparr>fr_status = 401,
       fr_json = Some (JsonObject \<lparr>detail = Some ''Not authenticated'', token = None, user = ()\<rparr>)\<rparr>"

definition loginResponse :: "unit fetch_response" where
  "loginResponse =
     \<lparr>fr_status = 200,
      fr_json = Some (JsonObject \<lparr>detail = None, token = Some ''tok123'', user = ()\<rparr>)\<rparr>"

definition exampleRuntime :: "unit js_runtime" where
  "exampleRuntime =
     \<lparr>now = 0,
      toUTCString = (\<lambda>t. if t = 2592000000 then ''Sat, 31 Jan 1970 00:00:00 GMT''
                          else ''Thu, 01 Jan 1970 00:00:00 GMT''),
      stringify = (\<lambda>u. ''{}'')\<rparr>"



definition taskA :: Task where
  "taskA =
     \<lparr>task_id = ''a'', title = ''Buy milk'', description = None, dueDate = None,
      priority = MEDIUM, status = COMPLETED, tags = Some [], createdAt = ''2025-01-01T00:00:00.000Z'',
      updatedAt = ''2025-01-01T00:00:00.000Z''\<rparr>"

definition taskB :: Task where
  "taskB =
     \<lparr>task_id = ''b'', title = ''Write report'', description = None, dueDate = None,
      priority = MEDIUM, status = NOT_STARTED, tags = Some [], createdAt = ''2025-01-02T00:00:00.000Z'',
      updatedAt = ''2025-01-02T00:00:00.000Z''\<rparr>"

definition standardTags :: "string list" where
  "standardTags =
     [''Work'', ''Personal'', ''Shopping'', ''Health'', ''Finance'', ''Learning'', ''Urgent'']"

definition emptyForm :: form where
  "emptyForm =
     \<lparr>form_title = [], form_description = [], form_tags = [], tagInput = [],
      showTagSuggestions = False, errors = Map.empty\<rparr>"

definition fullForm :: form where
  "fullForm =
     emptyForm\<lparr>form_tags := [''Work'', ''Personal'', ''Shopping'', ''Health'', ''Finance'']\<rparr>"

definition createEnv :: submit_env where
  "createEnv =
     \<lparr>editedTask = None, classifyPriority = (\<lambda>t. MEDIUM), randomUUID = ''uuid-1'',
      createdNow = ''2025-01-03T00:00:00.000Z'', updatedNow = ''2025-01-03T00:00:00.000Z''\<rparr>"


section \<open>History pagination\<close>

lemma try_call_rejected:
  "try_call msg unwrap alert_ok (Inl e :: 'b http_outcome) b
     = (Inl e, console_error msg (Some e) (snd (client_call alert_ok (Inl e :: 'b http_outcome) b)))"
  by (simp add: try_call_def client_call_def response_rejected_def Let_def split: prod.splits)

lemma try_call_fulfilled:
  "fst (try_call msg unwrap alert_ok (Inr r) b) = Inr (unwrap r)"
  by (simp add: try_call_def client_call_def response_fulfilled_def Let_def)

lemma mapPagination_example:
  "mapPagination \<lparr>bp_current_page = 2, bp_page_size = 10, bp_total_count = 25,
       bp_total_pages = 3, bp_has_next = True, bp_has_prev = True\<rparr>
     = \<lparr>page = 2, limit = 10, total_count = 25, total_pages = 3,
        has_next = True, has_prev = True\<rparr>"
  by (simp add: mapPagination_def)

text \<open>
  C1. For every backend history response, \<open>getHistory\<close> returns a pagination object
  whose \<open>page\<close> is the backend's \<open>current_page\<close>, whose \<open>limit\<close> is its \<open>page_size\<close>,
  and whose \<open>total_count\<close>, \<open>total_pages\<close>, \<open>has_next\<close>, \<open>has_prev\<close> are carried
  over; the backend metadata (2, 10, 25, 3, true, true) comes out as page 2, limit 10,
  total_count 25, total_pages 3, has_next and has_prev true.
\<close>

theorem getHistory_pagination_mapping:
  "fst (getHistory alert_ok (Inr r) b) =
     Inr \<lparr>pr_success = success (resp_data r),
          pr_data = items (data (resp_data r)),
          pr_pagination =
            \<lparr>page = bp_current_page (pagination (data (resp_data r))),
             limit = bp_page_size (pagination (data (resp_data r))),
             total_count = bp_total_count (pagination (data (resp_data r))),
             total_pages = bp_total_pages (pagination (data (resp_data r))),
             has_next = bp_has_next (pagination (data (resp_data r))),
             has_prev = bp_has_prev (pagination (data (resp_data r)))\<rparr>,
          pr_popup = popup (resp_data r),
          pr_error = error (resp_data r)\<rparr>
   \<and> fst (getHistory alert_ok
         (Inr \<lparr>resp_status = 200,
               resp_data = \<lparr>success = True,
                 data = \<lparr>items = its,
                   pagination = \<lparr>bp_current_page = 2, bp_page_size = 10, bp_total_count = 25,
                     bp_total_pages = 3, bp_has_next = True, bp_has_prev = True\<rparr>\<rparr>,
                 popup = None, error = None\<rparr>\<rparr>) b) =
     Inr \<lparr>pr_success = True, pr_data = its,
          pr_pagination = \<lparr>page = 2, limit = 10, total_count = 25, total_pages = 3,
            has_next = True, has_prev = True\<rparr>,
          pr_popup = None, pr_error = None\<rparr>"
  by (simp add: getHistory_def try_call_fulfilled mapPagination_def)


section \<open>Logout\<close>

lemma logout_try_returns:
  "(\<exists>u. logout_try out = Inr u) =
     (case out of FetchRejects \<Rightarrow> False | FetchResolves r \<Rightarrow> fr_json r \<noteq> None \<and> ok r)"
  by (auto simp add: logout_try_def split: fetch_outcome.splits option.splits json.splits)

text \<open>
  C2. Whatever the remote call does (\<open>fetch\<close> rejects, the body does not parse, the
  response is not ok, or all goes well), when \<open>logout\<close> returns or throws, the
  \<open>auth_token\<close> cookie has been expired and the \<open>localStorage\<close> entries
  \<open>auth_token\<close> and \<open>user\<close> are gone; it returns a value only for an ok response
  whose body parses and throws in every other case.
\<close>

theorem logout_always_clears_credentials:
  "localStorage (snd (logout out b)) ''auth_token'' = None
   \<and> localStorage (snd (logout out b)) ''user'' = None
   \<and> cookie_writes (snd (logout out b))
       = cookie_writes b @ [''auth_token=;expires=Thu, 01 Jan 1970 00:00:00 UTC;path=/;'']
   \<and> (\<exists>u. fst (logout out b) = Inr u)
       = (case out of FetchRejects \<Rightarrow> False | FetchResolves r \<Rightarrow> fr_json r \<noteq> None \<and> ok r)"
  using logout_try_returns[of out]
  by (simp add: logout_def Let_def deleteCookie_def removeItem_def console_log_def)


section \<open>HTTP 401\<close>

lemma client_call_401:
  "response_status e = Some 401 \<Longrightarrow>
     handles_401 b (snd (client_call alert_ok (Inl e) b))"
  by (simp add: handles_401_def client_call_def response_rejected_def Let_def
      request_interceptor_def console_log_def console_error_def removeItem_def)

lemma handles_401_console_error:
  "handles_401 b (console_error msg e b') = handles_401 b b'"
  by (simp add: handles_401_def console_error_def)

lemma try_call_401:
  "response_status e = Some 401 \<Longrightarrow>
     handles_401 b (snd (try_call msg unwrap alert_ok (Inl e) b))"
  by (simp add: try_call_rejected handles_401_console_error client_call_401)

lemma getHealth_rejected:
  "getHealth alert_ok (Inl e) b
     = (Inr health_fallback,
        console_error ''Health check failed:'' (Some e)
          (snd (client_call alert_ok (Inl e :: HealthStatus ApiResponse http_outcome) b)))"
  by (simp add: getHealth_def client_call_def response_rejected_def Let_def split: prod.splits)

lemma getHealth_401:
  "response_status e = Some 401 \<Longrightarrow>
     handles_401 b (snd (getHealth alert_ok (Inl e) b))"
  by (simp add: getHealth_rejected handles_401_console_error client_call_401)

lemma not_ok_401: "fr_status r = 401 \<Longrightarrow> \<not> ok r"
  by (simp add: ok_def)

lemma getCurrentUser_not_ok:
  "\<not> ok r \<Longrightarrow>
     snd (getCurrentUser (FetchResolves r) b) = b
     \<and> (\<exists>err. fst (getCurrentUser (FetchResolves r) b) = Inl err)"
  by (simp add: getCurrentUser_def split: option.splits json.splits)

lemma login_not_ok:
  "\<not> ok r \<Longrightarrow>
     snd (login rt (FetchResolves r) b) = b
     \<and> (\<exists>err. fst (login rt (FetchResolves r) b) = Inl err)"
  by (simp add: login_def split: option.splits json.splits)

lemma signup_not_ok:
  "\<not> ok r \<Longrightarrow>
     snd (signup rt (FetchResolves r) b) = b
     \<and> (\<exists>err. fst (signup rt (FetchResolves r) b) = Inl err)"
  by (simp add: signup_def split: option.splits json.splits)

text \<open>
  C3, as stated, fails: the auth service calls \<open>fetch\<close> directly, outside the axios
  instance and its interceptor. A 401 answer to \<open>getCurrentUser\<close> is thrown as an
  \<open>Error\<close> and leaves both \<open>localStorage\<close> entries and the location as they were.
\<close>

theorem getCurrentUser_401_keeps_session:
  "fst (getCurrentUser unauthorizedResponse signedInBrowser) = Inl (Error ''Not authenticated'')
   \<and> localStorage (snd (getCurrentUser unauthorizedResponse signedInBrowser)) ''auth_token''
       = Some ''tok123''
   \<and> localStorage (snd (getCurrentUser unauthorizedResponse signedInBrowser)) ''user''
       = Some ''{}''
   \<and> location_href (snd (getCurrentUser unauthorizedResponse signedInBrowser)) = ''/tasks''"
  by (simp add: getCurrentUser_def unauthorizedResponse_def signedInBrowser_def ok_def)

text \<open>
  C3, amended. For every method of the API client (the calls that go through the axios
  instance), a call rejected with HTTP 401 removes the \<open>localStorage\<close> entries
  \<open>auth_token\<close> and \<open>user\<close>, with or without a window and whether or not the
  session-expired alert could be shown; where a window is defined it sets the location
  to \<open>/login\<close>, and otherwise leaves the location as it was. The auth service's own
  \<open>fetch\<close> calls \<open>signup\<close>, \<open>login\<close> and \<open>getCurrentUser\<close> are outside the
  interceptor: on every response with status 401 they throw and leave the browser state
  (storage, cookie, console and location) unchanged.
\<close>

theorem api_client_401_clears_and_redirects:
  "(response_status e = Some 401 \<longrightarrow>
      handles_401 b (snd (getHealth alert_ok (Inl e) b))
      \<and> handles_401 b (snd (getTasks alert_ok (Inl e) b))
      \<and> handles_401 b (snd (getTask ident alert_ok (Inl e) b))
      \<and> handles_401 b (snd (createTask alert_ok (Inl e) b))
      \<and> handles_401 b (snd (updateTask ident alert_ok (Inl e) b))
      \<and> handles_401 b (snd (completeTask ident alert_ok (Inl e) b))
      \<and> handles_401 b (snd (incompleteTask ident alert_ok (Inl e) b))
      \<and> handles_401 b (snd (deleteTask ident alert_ok (Inl e) b))
      \<and> handles_401 b (snd (getHistory alert_ok (Inl e) b))
      \<and> handles_401 b (snd (deleteHistoryEntry ident alert_ok (Inl e) b))
      \<and> handles_401 b (snd (getWeeklyStats alert_ok (Inl e) b))
      \<and> handles_401 b (snd (getNotifications alert_ok (Inl e) b))
      \<and> handles_401 b (snd (markNotificationAsRead ident alert_ok (Inl e) b))
      \<and> handles_401 b (snd (markAllNotificationsAsRead alert_ok (Inl e) b))
      \<and> handles_401 b (snd (getUnreadCount alert_ok (Inl e) b)))
   \<and> (fr_status r = 401 \<longrightarrow>
        snd (getCurrentUser (FetchResolves r) c) = c
        \<and> (\<exists>err. fst (getCurrentUser (FetchResolves r) c) = Inl err)
        \<and> snd (login rt (FetchResolves r) c) = c
        \<and> (\<exists>err. fst (login rt (FetchResolves r) c) = Inl err)
        \<and> snd (signup rt (FetchResolves r) c) = c
        \<and> (\<exists>err. fst (signup rt (FetchResolves r) c) = Inl err))"
proof (intro conjI impI)
  assume u: "response_status e = Some 401"
  note h = getHealth_401[OF u] and t = try_call_401[OF u]
  show "handles_401 b (snd (getHealth alert_ok (Inl e) b))" by (rule h)
  show "handles_401 b (snd (getTasks alert_ok (Inl e) b))" by (simp add: getTasks_def t)
  show "handles_401 b (snd (getTask ident alert_ok (Inl e) b))" by (simp add: getTask_def t)
  show "handles_401 b (snd (createTask alert_ok (Inl e) b))" by (simp add: createTask_def t)
  show "handles_401 b (snd (updateTask ident alert_ok (Inl e) b))"
    by (simp add: updateTask_def t)
  show "handles_401 b (snd (completeTask ident alert_ok (Inl e) b))"
    by (simp add: completeTask_def t)
  show "handles_401 b (snd (incompleteTask ident alert_ok (Inl e) b))"
    by (simp add: incompleteTask_def t)
  show "handles_401 b (snd (deleteTask ident alert_ok (Inl e) b))"
    by (simp add: deleteTask_def t)
  show "handles_401 b (snd (getHistory alert_ok (Inl e) b))" by (simp add: getHistory_def t)
  show "handles_401 b (snd (deleteHistoryEntry ident alert_ok (Inl e) b))"
    by (simp add: deleteHistoryEntry_def t)
  show "handles_401 b (snd (getWeeklyStats alert_ok (Inl e) b))"
    by (simp add: getWeeklyStats_def t)
  show "handles_401 b (snd (getNotifications alert_ok (Inl e) b))"
    by (simp add: getNotifications_def t)
  show "handles_401 b (snd (markNotificationAsRead ident alert_ok (Inl e) b))"
    by (simp add: markNotificationAsRead_def t)
  show "handles_401 b (snd (markAllNotificationsAsRead alert_ok (Inl e) b))"
    by (simp add: markAllNotificationsAsRead_def t)
  show "handles_401 b (snd (getUnreadCount alert_ok (Inl e) b))"
    by (simp add: getUnreadCount_def t)
next
  assume "fr_status r = 401"
  then have n: "\<not> ok r" by (rule not_ok_401)
  show "snd (getCurrentUser (FetchResolves r) c) = c"
    using getCurrentUser_not_ok[OF n] by simp
  show "\<exists>err. fst (getCurrentUser (FetchResolves r) c) = Inl err"
    using getCurrentUser_not_ok[OF n] by simp
  show "snd (login rt (FetchResolves r) c) = c"
    using login_not_ok[OF n] by simp
  show "\<exists>err. fst (login rt (FetchResolves r) c) = Inl err"
    using login_not_ok[OF n] by simp
  show "snd (signup rt (FetchResolves r) c) = c"
    using signup_not_ok[OF n] by simp
  show "\<exists>err. fst (signup rt (FetchResolves r) c) = Inl err"
    using signup_not_ok[OF n] by simp
qed

theorem api_client_401_clears_and_redirects_witness:
  "response_status unauthorized = Some 401
   \<and> fr_status \<lparr>fr_status = 401, fr_json = (None :: unit json option)\<rparr> = 401
   \<and> handles_401 signedInBrowser (snd (getHealth True (Inl unauthorized) signedInBrowser))
   \<and> handles_401 (signedInBrowser\<lparr>window_defined := False\<rparr>)
        (snd (getTasks False (Inl unauthorized :: unit list option ApiResponse http_outcome)
           (signedInBrowser\<lparr>window_defined := False\<rparr>)))
   \<and> snd (login exampleRuntime
        (FetchResolves \<lparr>fr_status = 401, fr_json = (None :: unit json option)\<rparr>)
        signedInBrowser) = signedInBrowser"
proof -
  have h1: "response_status unauthorized = Some 401"
    by (simp add: unauthorized_def)
  have h2: "fr_status \<lparr>fr_status = 401, fr_json = (None :: unit json option)\<rparr> = 401"
    by simp
  note api = mp[OF conjunct1[OF api_client_401_clears_and_redirects] h1]
  note auth = mp[OF conjunct2[OF api_client_401_clears_and_redirects] h2]
  have health: "handles_401 signedInBrowser
      (snd (getHealth True (Inl unauthorized) signedInBrowser))"
    by (rule conjunct1[OF api])
  have tasks: "handles_401 (signedInBrowser\<lparr>window_defined := False\<rparr>)
        (snd (getTasks False (Inl unauthorized :: unit list option ApiResponse http_outcome)
           (signedInBrowser\<lparr>window_defined := False\<rparr>)))"
    by (rule conjunct1[OF conjunct2[OF api]])
  have lg: "snd (login exampleRuntime
        (FetchResolves \<lparr>fr_status = 401, fr_json = (None :: unit json option)\<rparr>)
        signedInBrowser) = signedInBrowser"
    by (rule conjunct1[OF conjunct2[OF conjunct2[OF auth]]])
  show ?thesis
    using h1 h2 health tasks lg by blast
qed


section \<open>Failure and success of the client's methods\<close>






section \<open>Storing the token at login and signup\<close>

text \<open>
  C8. For every successful login or signup response that carries a token (an ok
  response whose body parses to an object with a non-empty \<open>token\<close>), the string
  assigned to \<open>document.cookie\<close> is \<open>auth_token=<token>\<close> followed by an \<open>expires\<close>
  attribute 30 days after the current time, \<open>path=/\<close>, \<open>SameSite=Lax\<close> and
  \<open>Secure\<close>; the token is stored in \<open>localStorage\<close> under \<open>auth_token\<close> and the
  serialised user object under \<open>user\<close>.
\<close>

theorem login_signup_store_token:
  assumes "ok response" and "fr_json response = Some (JsonObject d)"
    and "token d = Some t" and "t \<noteq> []"
  shows "fst (login rt (FetchResolves response) b) = Inr (JsonObject d)
    \<and> cookie_writes (snd (login rt (FetchResolves response) b))
        = cookie_writes b @ [''auth_token='' @ t @ '';expires=''
             @ toUTCString rt (now rt + 30 * (24 * 60 * 60 * 1000))
             @ '';path=/;SameSite=Lax;Secure'']
    \<and> localStorage (snd (login rt (FetchResolves response) b)) ''auth_token'' = Some t
    \<and> localStorage (snd (login rt (FetchResolves response) b)) ''user''
        = Some (stringify rt (user d))
    \<and> fst (signup rt (FetchResolves response) b) = Inr (JsonObject d)
    \<and> cookie_writes (snd (signup rt (FetchResolves response) b))
        = cookie_writes b @ [''auth_token='' @ t @ '';expires=''
             @ toUTCString rt (now rt + 30 * (24 * 60 * 60 * 1000))
             @ '';path=/;SameSite=Lax;Secure'']
    \<and> localStorage (snd (signup rt (FetchResolves response) b)) ''auth_token'' = Some t
    \<and> localStorage (snd (signup rt (FetchResolves response) b)) ''user''
        = Some (stringify rt (user d))"
  using assms
  by (simp add: login_def signup_def Let_def setCookie_def setItem_def console_log_def)

theorem login_signup_store_token_witness:
  "ok loginResponse
   \<and> fr_json loginResponse
       = Some (JsonObject \<lparr>detail = None, token = Some ''tok123'', user = ()\<rparr>)
   \<and> cookie_writes (snd (login exampleRuntime (FetchResolves loginResponse)
          (signedInBrowser\<lparr>localStorage := Map.empty\<rparr>)))
       = [''auth_token=tok123;expires=Sat, 31 Jan 1970 00:00:00 GMT;path=/;SameSite=Lax;Secure'']
   \<and> localStorage (snd (login exampleRuntime (FetchResolves loginResponse)
          (signedInBrowser\<lparr>localStorage := Map.empty\<rparr>))) ''auth_token'' = Some ''tok123''
   \<and> localStorage (snd (signup exampleRuntime (FetchResolves loginResponse)
          (signedInBrowser\<lparr>localStorage := Map.empty\<rparr>))) ''user'' = Some ''{}''"
proof -
  have h1: "ok loginResponse"
    by (simp add: ok_def loginResponse_def)
  have h2: "fr_json loginResponse
      = Some (JsonObject \<lparr>detail = None, token = Some ''tok123'', user = ()\<rparr>)"
    by (simp add: loginResponse_def)
  have h3: "token \<lparr>detail = None, token = Some ''tok123'', user = ()\<rparr> = Some ''tok123''"
    by simp
  have h4: "''tok123'' \<noteq> []"
    by simp
  show ?thesis
    using h1 h2
      login_signup_store_token[OF h1 h2 h3 h4, of exampleRuntime
        "signedInBrowser\<lparr>localStorage := Map.empty\<rparr>"]
    by (simp add: exampleRuntime_def signedInBrowser_def)
qed


section \<open>Session check\<close>

text \<open>
  C9. \<open>isAuthenticated\<close> never throws: for every outcome of the underlying
  \<open>getCurrentUser\<close> call it returns a boolean, \<open>true\<close> exactly when \<open>getCurrentUser\<close>
  returns a value (an ok response whose body parses), and \<open>false\<close> when \<open>fetch\<close> fails,
  the body does not parse, or the response is not ok; it changes nothing in the browser.
\<close>

theorem isAuthenticated_never_throws:
  "fst (isAuthenticated out b) = (\<exists>u. fst (getCurrentUser out b) = Inr u)
   \<and> fst (isAuthenticated out b)
       = (case out of FetchRejects \<Rightarrow> False | FetchResolves r \<Rightarrow> fr_json r \<noteq> None \<and> ok r)
   \<and> snd (isAuthenticated out b) = b"
  by (auto simp add: isAuthenticated_def getCurrentUser_def
      split: fetch_outcome.splits option.splits json.splits prod.splits sum.splits)


section \<open>Filter, sort and search on the tasks page\<close>

lemma trim_whitespace_only: "\<forall>c\<in>set q. isWhitespace c \<Longrightarrow> trim q = []"
  by (auto simp: trim_def dest: set_dropWhileD)

lemma filter_matchesSearch_blank: "trim q = [] \<Longrightarrow> filter (matchesSearch q) xs = xs"
  by (simp add: matchesSearch_def)

lemma TasksPage_lists:
  "filteredTasks (TasksPage useFilters useSort q ts) = useFilters ts
   \<and> sortedTasks (TasksPage useFilters useSort q ts) = useSort (useFilters ts)
   \<and> searchedTasks (TasksPage useFilters useSort q ts)
       = filter (matchesSearch q) (useSort (useFilters ts))"
  by (simp add: TasksPage_def Let_def)

lemma matchesSearch_unfolded:
  "matchesSearch q task =
     (trim q = []
      \<or> includesStr (toLowerCase (title task)) (toLowerCase q)
      \<or> (\<exists>d. description task = Some d \<and> includesStr (toLowerCase d) (toLowerCase q))
      \<or> (\<exists>tgs tag. tags task = Some tgs \<and> tag \<in> set tgs
            \<and> includesStr (toLowerCase tag) (toLowerCase q)))"
  by (auto simp add: matchesSearch_def Let_def list_ex_iff split: option.splits)

lemma matchesSearch_report:
  assumes "title b = ''Write report''"
  shows "matchesSearch ''report'' b"
proof -
  have t: "trim ''report'' \<noteq> []" by code_simp
  have q: "toLowerCase ''report'' = ''report''" by code_simp
  have w: "toLowerCase ''Write report'' = ''write report''" by code_simp
  have i: "includesStr ''write report'' ''report''" by simp
  show ?thesis
    using assms t by (simp only: matchesSearch_def Let_def q w i if_False simp_thms)
qed

lemma not_matchesSearch_report:
  assumes "title a = ''Buy milk''" and "description a = None"
    and "tags a = None \<or> tags a = Some []"
  shows "\<not> matchesSearch ''report'' a"
proof -
  have t: "trim ''report'' \<noteq> []" by code_simp
  have q: "toLowerCase ''report'' = ''report''" by code_simp
  have w: "toLowerCase ''Buy milk'' = ''buy milk''" by code_simp
  have i: "\<not> includesStr ''buy milk'' ''report''" by simp
  show ?thesis
    using assms t i by (auto simp add: matchesSearch_def Let_def q w)
qed

text \<open>
  C4. For every task list, filter, sort and search text, the list shown on the tasks
  page is the filter applied first, the sort applied to its result, and the search
  applied last: of the sorted list it keeps, in order, every task when the search text
  trims to nothing, and otherwise the tasks whose lower-cased title, description or one
  of whose lower-cased tags contains the lower-cased search text. For task A (title
  "Buy milk", status COMPLETED) and task B (title "Write report", status NOT_STARTED),
  filtering by status NOT_STARTED and searching "report" shows exactly B, under any sort
  (a sort leaves a one-element list as it is); and with no filter at all the search for
  "report" alone removes an A that has no description and no tags and keeps B.
\<close>

theorem tasks_page_filter_sort_search:
  "filteredTasks (TasksPage anyFilter anySort q ts) = anyFilter ts
   \<and> sortedTasks (TasksPage anyFilter anySort q ts) = anySort (anyFilter ts)
   \<and> searchedTasks (TasksPage anyFilter anySort q ts)
       = filter
           (\<lambda>task. trim q = []
              \<or> includesStr (toLowerCase (title task)) (toLowerCase q)
              \<or> (\<exists>d. description task = Some d
                    \<and> includesStr (toLowerCase d) (toLowerCase q))
              \<or> (\<exists>tgs tag. tags task = Some tgs \<and> tag \<in> set tgs
                    \<and> includesStr (toLowerCase tag) (toLowerCase q)))
           (anySort (anyFilter ts))
   \<and> (title a = ''Buy milk'' \<and> status a = COMPLETED
        \<and> title b = ''Write report'' \<and> status b = NOT_STARTED
        \<and> useSort [b] = [b]
      \<longrightarrow> searchedTasks (TasksPage (filterByStatus NOT_STARTED) useSort ''report'' [a, b])
          = [b])
   \<and> (title a' = ''Buy milk'' \<and> description a' = None
        \<and> (tags a' = None \<or> tags a' = Some [])
        \<and> title b' = ''Write report''
      \<longrightarrow> searchedTasks (TasksPage (\<lambda>xs. xs) (\<lambda>xs. xs) ''report'' [a', b']) = [b']
          \<and> searchedTasks (TasksPage (\<lambda>xs. xs) rev ''report'' [a', b']) = [b'])"
proof -
  have gen: "filteredTasks (TasksPage anyFilter anySort q ts) = anyFilter ts
     \<and> sortedTasks (TasksPage anyFilter anySort q ts) = anySort (anyFilter ts)"
    by (simp add: TasksPage_lists)
  have "matchesSearch q = (\<lambda>task. trim q = []
              \<or> includesStr (toLowerCase (title task)) (toLowerCase q)
              \<or> (\<exists>d. description task = Some d
                    \<and> includesStr (toLowerCase d) (toLowerCase q))
              \<or> (\<exists>tgs tag. tags task = Some tgs \<and> tag \<in> set tgs
                    \<and> includesStr (toLowerCase tag) (toLowerCase q)))"
    by (rule ext) (rule matchesSearch_unfolded)
  then have srch: "searchedTasks (TasksPage anyFilter anySort q ts)
       = filter
           (\<lambda>task. trim q = []
              \<or> includesStr (toLowerCase (title task)) (toLowerCase q)
              \<or> (\<exists>d. description task = Some d
                    \<and> includesStr (toLowerCase d) (toLowerCase q))
              \<or> (\<exists>tgs tag. tags task = Some tgs \<and> tag \<in> set tgs
                    \<and> includesStr (toLowerCase tag) (toLowerCase q)))
           (anySort (anyFilter ts))"
    using TasksPage_lists[of anyFilter anySort q ts] by simp
  have ex: "searchedTasks (TasksPage (filterByStatus NOT_STARTED) useSort ''report'' [a, b])
      = [b]"
    if h: "title a = ''Buy milk'' \<and> status a = COMPLETED
        \<and> title b = ''Write report'' \<and> status b = NOT_STARTED
        \<and> useSort [b] = [b]"
  proof -
    have f: "filterByStatus NOT_STARTED [a, b] = [b]"
      using h by (simp add: filterByStatus_def)
    have m: "matchesSearch ''report'' b"
      using h by (simp add: matchesSearch_report)
    show ?thesis
      using m h by (simp add: TasksPage_lists f)
  qed
  have ex2: "searchedTasks (TasksPage (\<lambda>xs. xs) (\<lambda>xs. xs) ''report'' [a', b']) = [b']
          \<and> searchedTasks (TasksPage (\<lambda>xs. xs) rev ''report'' [a', b']) = [b']"
    if h: "title a' = ''Buy milk'' \<and> description a' = None
        \<and> (tags a' = None \<or> tags a' = Some [])
        \<and> title b' = ''Write report''"
  proof -
    have m: "matchesSearch ''report'' b'"
      using h by (simp add: matchesSearch_report)
    have n: "\<not> matchesSearch ''report'' a'"
      using h by (simp add: not_matchesSearch_report)
    show ?thesis
      using m n by (simp add: TasksPage_lists)
  qed
  show ?thesis
    using gen srch ex ex2 by blast
qed

theorem tasks_page_filter_sort_search_witness:
  "title taskA = ''Buy milk'' \<and> status taskA = COMPLETED
   \<and> title taskB = ''Write report'' \<and> status taskB = NOT_STARTED
   \<and> rev [taskB] = [taskB]
   \<and> description taskA = None \<and> tags taskA = Some []
   \<and> searchedTasks (TasksPage (filterByStatus NOT_STARTED) rev ''report'' [taskA, taskB])
       = [taskB]
   \<and> searchedTasks (TasksPage (\<lambda>xs. xs) (\<lambda>xs. xs) ''report'' [taskA, taskB]) = [taskB]
   \<and> searchedTasks (TasksPage (\<lambda>xs. xs) rev ''report'' [taskA, taskB]) = [taskB]"
proof -
  have h: "title taskA = ''Buy milk'' \<and> status taskA = COMPLETED
      \<and> title taskB = ''Write report'' \<and> status taskB = NOT_STARTED
      \<and> rev [taskB] = [taskB]"
    by (simp add: taskA_def taskB_def)
  have h': "title taskA = ''Buy milk'' \<and> description taskA = None
      \<and> (tags taskA = None \<or> tags taskA = Some [])
      \<and> title taskB = ''Write report''"
    by (simp add: taskA_def taskB_def)
  have d: "description taskA = None \<and> tags taskA = Some []"
    by (simp add: taskA_def)
  note all = tasks_page_filter_sort_search[where a = taskA and b = taskB and useSort = rev
      and a' = taskA and b' = taskB]
  have r: "searchedTasks (TasksPage (filterByStatus NOT_STARTED) rev ''report'' [taskA, taskB])
      = [taskB]"
    by (rule mp[OF conjunct1[OF conjunct2[OF conjunct2[OF conjunct2[OF all]]]] h])
  have r2: "searchedTasks (TasksPage (\<lambda>xs. xs) (\<lambda>xs. xs) ''report'' [taskA, taskB]) = [taskB]
      \<and> searchedTasks (TasksPage (\<lambda>xs. xs) rev ''report'' [taskA, taskB]) = [taskB]"
    by (rule mp[OF conjunct2[OF conjunct2[OF conjunct2[OF conjunct2[OF all]]]] h'])
  show ?thesis
    using h d r r2 by blast
qed

text \<open>
  C10. For every task list and every search text that consists of white space only
  (the empty text included), the searched list is the filtered and sorted list,
  unchanged and in the same order.
\<close>

theorem blank_search_is_identity:
  assumes "\<forall>c\<in>set searchQuery. isWhitespace c"
  shows "searchedTasks (TasksPage useFilters useSort searchQuery tasks)
      = sortedTasks (TasksPage useFilters useSort searchQuery tasks)
    \<and> searchedTasks (TasksPage useFilters useSort searchQuery tasks)
      = useSort (useFilters tasks)"
  using assms
  by (simp add: TasksPage_lists filter_matchesSearch_blank trim_whitespace_only)

theorem blank_search_is_identity_witness:
  "isWhitespace CHR '' '' \<and> isWhitespace CHR 0x09
   \<and> searchedTasks (TasksPage (\<lambda>ts. ts) rev [CHR '' '', CHR 0x09, CHR '' ''] [taskA, taskB])
       = [taskB, taskA]
   \<and> searchedTasks (TasksPage (\<lambda>ts. ts) rev [] [taskA, taskB]) = [taskB, taskA]"
proof -
  have h1: "\<forall>c\<in>set [CHR '' '', CHR 0x09, CHR '' '']. isWhitespace c"
    by (simp add: isWhitespace_def)
  have h2: "\<forall>c\<in>set []. isWhitespace c"
    by simp
  have r1: "searchedTasks (TasksPage (\<lambda>ts. ts) rev [CHR '' '', CHR 0x09, CHR '' ''] [taskA, taskB])
      = rev [taskA, taskB]"
    by (rule conjunct2[OF blank_search_is_identity[OF h1]])
  have r2: "searchedTasks (TasksPage (\<lambda>ts. ts) rev [] [taskA, taskB]) = rev [taskA, taskB]"
    by (rule conjunct2[OF blank_search_is_identity[OF h2]])
  show ?thesis
    using h1 r1 r2 by simp
qed


section \<open>Validation in the task form\<close>

lemma validateForm_verdict:
  "fst (validateForm f)
     = (\<not> (trim (form_title f) = [] \<or> 200 < length (trim (form_title f))
           \<or> 2000 < length (form_description f)))"
  by (simp add: validateForm_def Let_def)

lemma validateForm_errors:
  "(errors (snd (validateForm f)) = Map.empty) = fst (validateForm f)"
  by (simp add: validateForm_def Let_def)

lemma handleSubmit_rejected:
  "\<not> fst (validateForm f) \<Longrightarrow> handleSubmit env f = (None, snd (validateForm f))"
  by (cases "validateForm f") (simp add: handleSubmit_def)

lemma handleSubmit_accepted:
  "fst (validateForm f) \<Longrightarrow>
     fst (handleSubmit env f) \<noteq> None \<and> errors (snd (handleSubmit env f)) = Map.empty"
  using validateForm_errors[of f]
  by (cases "validateForm f") (simp add: handleSubmit_def Let_def)

text \<open>
  C5. For every title and description in the task form, submission is rejected
  (\<open>onSubmit\<close> is not called and an error message is set) exactly when the trimmed
  title is empty, the trimmed title is longer than 200 characters, or the description is
  longer than 2000 characters; in every other case validation passes and \<open>onSubmit\<close> is
  called.
\<close>

theorem task_form_rejects_exactly_invalid:
  "(fst (handleSubmit env f) = None)
     = (trim (form_title f) = [] \<or> 200 < length (trim (form_title f))
        \<or> 2000 < length (form_description f))
   \<and> (fst (handleSubmit env f) = None) = (errors (snd (handleSubmit env f)) \<noteq> Map.empty)
   \<and> fst (validateForm f) = (fst (handleSubmit env f) \<noteq> None)"
proof (cases "fst (validateForm f)")
  case True
  then show ?thesis
    using handleSubmit_accepted[of f env] validateForm_verdict[of f] by simp
next
  case False
  then show ?thesis
    using handleSubmit_rejected[of f env] validateForm_verdict[of f] validateForm_errors[of f]
    by simp
qed


section \<open>Tags in the task form\<close>

lemma handleAddTag_keeps_invariant:
  "distinct (form_tags f) \<and> length (form_tags f) \<le> 5 \<Longrightarrow>
     distinct (form_tags (handleAddTag std t f))
     \<and> length (form_tags (handleAddTag std t f)) \<le> 5"
  by (simp add: handleAddTag_def validateSingleTag_def Let_def split: list.splits)

lemma handleRemoveTag_keeps_invariant:
  "distinct (form_tags f) \<and> length (form_tags f) \<le> 5 \<Longrightarrow>
     distinct (form_tags (handleRemoveTag t f))
     \<and> length (form_tags (handleRemoveTag t f)) \<le> 5"
  by (auto simp add: handleRemoveTag_def intro: le_trans[OF length_filter_le])

lemma tag_step_keeps_invariant:
  "distinct (form_tags f) \<and> length (form_tags f) \<le> 5 \<Longrightarrow>
     distinct (form_tags (tag_step std f ev)) \<and> length (form_tags (tag_step std f ev)) \<le> 5"
  by (cases ev) (simp_all add: handleAddTag_keeps_invariant handleRemoveTag_keeps_invariant)

lemma tag_run_keeps_invariant:
  "distinct (form_tags f) \<and> length (form_tags f) \<le> 5 \<Longrightarrow>
     distinct (form_tags (tag_run std f evs)) \<and> length (form_tags (tag_run std f evs)) \<le> 5"
proof (induction evs arbitrary: f)
  case Nil
  then show ?case by simp
next
  case (Cons ev evs)
  have "distinct (form_tags (tag_step std f ev)) \<and> length (form_tags (tag_step std f ev)) \<le> 5"
    using Cons.prems by (rule tag_step_keeps_invariant)
  then show ?case using Cons.IH by simp
qed

lemma handleAddTag_rejects:
  "t \<in> set (form_tags g) \<or> 5 \<le> length (form_tags g) \<Longrightarrow>
     form_tags (handleAddTag std t g) = form_tags g
     \<and> (\<exists>e. e \<noteq> [] \<and> errors (handleAddTag std t g) ''tags'' = Some e)"
  by (auto simp add: handleAddTag_def validateSingleTag_def Let_def)

text \<open>The modelled validation does let a tag in: a standard category not yet selected,
  with fewer than five selected, is appended.\<close>

lemma handleAddTag_accepts:
  "t \<in> set std \<Longrightarrow> t \<notin> set (form_tags g) \<Longrightarrow> length (form_tags g) < 5 \<Longrightarrow>
     form_tags (handleAddTag std t g) = form_tags g @ [t]"
  by (simp add: handleAddTag_def validateSingleTag_def Let_def)

lemma tag_run_example:
  "form_tags (tag_run standardTags emptyForm
      [AddTag ''Work'', AddTag ''Work'', AddTag ''Urgent'', RemoveTag ''Work'']) = [''Urgent'']"
  by (simp add: handleAddTag_def handleRemoveTag_def validateSingleTag_def standardTags_def
      emptyForm_def Let_def)

text \<open>
  C6. For every sequence of tag add and remove operations in the task form, started
  from a tag list without duplicates and with at most 5 entries (the empty list of a new
  task among them), the tag list never has more than 5 entries and never has a
  duplicate: adding a tag already present or adding a sixth tag leaves the list as it is
  and sets an error, and the tag input is offered only while fewer than 5 tags are
  selected.
\<close>

theorem tag_list_bounded_distinct:
  "(distinct (form_tags f) \<and> length (form_tags f) \<le> 5 \<longrightarrow>
      distinct (form_tags (tag_run std f evs)) \<and> length (form_tags (tag_run std f evs)) \<le> 5)
   \<and> distinct (form_tags (tag_run std emptyForm evs))
   \<and> length (form_tags (tag_run std emptyForm evs)) \<le> 5
   \<and> (t \<in> set (form_tags g) \<or> 5 \<le> length (form_tags g) \<longrightarrow>
        form_tags (handleAddTag std t g) = form_tags g
        \<and> (\<exists>e. e \<noteq> [] \<and> errors (handleAddTag std t g) ''tags'' = Some e))
   \<and> tagInputOffered g = (length (form_tags g) < 5)"
  using tag_run_keeps_invariant[of f std evs] tag_run_keeps_invariant[of emptyForm std evs]
    handleAddTag_rejects[of t g std]
  by (simp add: tagInputOffered_def emptyForm_def)

theorem tag_list_bounded_distinct_witness:
  "distinct (form_tags fullForm) \<and> length (form_tags fullForm) \<le> 5
   \<and> distinct (form_tags (tag_run standardTags fullForm
        [AddTag ''Urgent'', RemoveTag ''Work'', AddTag ''Urgent'', AddTag ''Urgent'']))
   \<and> length (form_tags (tag_run standardTags fullForm
        [AddTag ''Urgent'', RemoveTag ''Work'', AddTag ''Urgent'', AddTag ''Urgent''])) \<le> 5
   \<and> (''Work'' \<in> set (form_tags fullForm) \<or> 5 \<le> length (form_tags fullForm))
   \<and> form_tags (handleAddTag standardTags ''Work'' fullForm) = form_tags fullForm
   \<and> (\<exists>e. e \<noteq> [] \<and> errors (handleAddTag standardTags ''Work'' fullForm) ''tags'' = Some e)
   \<and> \<not> tagInputOffered fullForm"
proof -
  have h1: "distinct (form_tags fullForm) \<and> length (form_tags fullForm) \<le> 5"
    by (simp add: fullForm_def emptyForm_def)
  have h2: "''Work'' \<in> set (form_tags fullForm) \<or> 5 \<le> length (form_tags fullForm)"
    by (simp add: fullForm_def emptyForm_def)
  have h3: "length (form_tags fullForm) = 5"
    by (simp add: fullForm_def emptyForm_def)
  show ?thesis
    using h1 h2 h3
      tag_list_bounded_distinct[of fullForm standardTags
          "[AddTag ''Urgent'', RemoveTag ''Work'', AddTag ''Urgent'', AddTag ''Urgent'']"
          "''Work''" fullForm]
    by simp
qed

end
